theory Spec2Isabelle
  imports Complex_Main
begin

section \<open>JavaScript values and built-ins used by the dice game\<close>

text \<open>
  The game (\<^verbatim>\<open>src/app.js\<close>, and its earlier single-round variant
  \<^verbatim>\<open>src/unnamed/part_000\<close>) only computes with integer-valued numbers that are far
  below \<open>2^53\<close>, so a JavaScript integer is modelled as \<open>int\<close>.  \<open>NaN\<close> and
  \<open>undefined\<close> are the value \<open>None\<close> of an option type.
\<close>

text \<open>
  The remainder operator \<^verbatim>\<open>a % b\<close> on integers with \<open>b \<noteq> 0\<close>: the result takes the sign
  of the dividend (truncated division), unlike \<open>mod\<close> of HOL.  A negative zero indexes an
  array like \<open>0\<close>, so it is not distinguished.
\<close>

definition js_rem :: "int \<Rightarrow> int \<Rightarrow> int" where
  "js_rem a b = sgn a * (\<bar>a\<bar> mod \<bar>b\<bar>)"

text \<open>
  The result of \<^verbatim>\<open>Number(s)\<close> as far as the program inspects it: either an integer
  (\<^verbatim>\<open>Number.isInteger\<close> holds) or anything else (\<open>NaN\<close>, an infinity, a fraction).
  \<^verbatim>\<open>Number\<close> itself belongs to the runtime and is a parameter \<open>N\<close> of the model.
\<close>

datatype number = Integer int | NonInteger

text \<open>\<^verbatim>\<open>x => !Number.isInteger(x) || x < 1\<close>; the second disjunct is only evaluated on integers.\<close>

fun badSide :: "number \<Rightarrow> bool" where
  "badSide NonInteger = True"
| "badSide (Integer x) = (x < 1)"

fun integerOf :: "number \<Rightarrow> int" where
  "integerOf (Integer x) = x"
| "integerOf NonInteger = 0"

text \<open>\<^verbatim>\<open>arg.split(',')\<close>: the pieces between commas; the empty string gives one empty piece.\<close>

fun split_comma :: "string \<Rightarrow> string list" where
  "split_comma [] = [[]]"
| "split_comma (c # cs) =
     (if c = CHR '','' then [] # split_comma cs
      else (case split_comma cs of
              [] \<Rightarrow> [[c]]
            | w # ws \<Rightarrow> (c # w) # ws))"

text \<open>
  \<^verbatim>\<open>parseInt(s)\<close> without a radix: leading white space is skipped, a sign is read, a
  \<^verbatim>\<open>0x\<close> prefix switches to radix 16, then the longest prefix of digits is converted.
  No digit at all gives \<open>NaN\<close>.  Characters are the 8-bit ones of \<open>string\<close>.
\<close>

definition isWhiteSpace :: "char \<Rightarrow> bool" where
  "isWhiteSpace c = (c \<in> set [CHR 0x09, CHR 0x0A, CHR 0x0B, CHR 0x0C, CHR 0x0D, CHR 0x20, CHR 0xA0])"

definition digitValue :: "char \<Rightarrow> nat option" where
  "digitValue c =
     (let n = (of_char c :: nat) in
      if 48 \<le> n \<and> n \<le> 57 then Some (n - 48)
      else if 97 \<le> n \<and> n \<le> 122 then Some (n - 87)
      else if 65 \<le> n \<and> n \<le> 90 then Some (n - 55)
      else None)"

definition isDigitIn :: "nat \<Rightarrow> char \<Rightarrow> bool" where
  "isDigitIn radix c = (case digitValue c of None \<Rightarrow> False | Some d \<Rightarrow> d < radix)"

definition digitsValue :: "nat \<Rightarrow> string \<Rightarrow> int" where
  "digitsValue radix z = foldl (\<lambda>acc c. acc * int radix + int (the (digitValue c))) 0 z"

definition parseInt :: "string \<Rightarrow> int option" where
  "parseInt inputString =
     (let s0 = dropWhile isWhiteSpace inputString;
          sign = (if s0 \<noteq> [] \<and> hd s0 = CHR ''-'' then -1 else 1 :: int);
          s1 = (if s0 \<noteq> [] \<and> (hd s0 = CHR ''+'' \<or> hd s0 = CHR ''-'') then tl s0 else s0);
          hex = (take 2 s1 = ''0x'' \<or> take 2 s1 = ''0X'');
          radix = (if hex then 16 else 10 :: nat);
          s2 = (if hex then drop 2 s1 else s1);
          z = takeWhile (isDigitIn radix) s2
      in if z = [] then None else Some (sign * digitsValue radix z))"

text \<open>
  \<^verbatim>\<open>value.toString()\<close> of an integer: its decimal digits, with a minus sign when negative.
  This is what JavaScript prints for integers of absolute value below \<open>10^21\<close>; from there
  on it prints an exponent form, which is not modelled.  The game only commits to results
  of \<^verbatim>\<open>randomInt(2)\<close> and \<^verbatim>\<open>randomInt(6)\<close>.
\<close>

function decimal :: "nat \<Rightarrow> string" where
  "decimal n = (if n < 10 then [char_of (48 + n)] else decimal (n div 10) @ [char_of (48 + n mod 10)])"
  by pat_completeness auto
termination
  by (relation "measure id") auto

definition toString :: "int \<Rightarrow> string" where
  "toString v = (if v < 0 then CHR ''-'' # decimal (nat (- v)) else decimal (nat v))"

section \<open>The crypto module\<close>

text \<open>
  Node's \<^verbatim>\<open>crypto\<close> module is outside the repository.  Its three entry points used by
  the game are parameters: \<open>randomInt\<close> and \<open>randomBytesHex\<close> read the entropy state
  \<open>'r\<close> and return it advanced; \<open>createHmac\<close> is the keyed digest rendered in hex.
\<close>

record 'r crypto =
  randomInt :: "int \<Rightarrow> 'r \<Rightarrow> int \<times> 'r"
  randomBytesHex :: "nat \<Rightarrow> 'r \<Rightarrow> string \<times> 'r"
  createHmac :: "string \<Rightarrow> string \<Rightarrow> string"

section \<open>FairRandom\<close>

definition generateKey :: "'r crypto \<Rightarrow> 'r \<Rightarrow> string \<times> 'r" where
  "generateKey C s = randomBytesHex C 32 s"

definition generateHMAC :: "'r crypto \<Rightarrow> string \<Rightarrow> int \<Rightarrow> string" where
  "generateHMAC C key v = createHmac C key (toString v)"

text \<open>The result object \<^verbatim>\<open>{ value, hmac }\<close>.\<close>

record fair =
  "value" :: int
  hmac :: string

text \<open>\<^verbatim>\<open>getFairRandom\<close> of \<^verbatim>\<open>app.js\<close>: one draw.\<close>

definition getFairRandom :: "'r crypto \<Rightarrow> int \<Rightarrow> string \<Rightarrow> 'r \<Rightarrow> fair \<times> 'r" where
  "getFairRandom C rangeN key s =
     (case randomInt C rangeN s of
        (randomValue, s') \<Rightarrow> (\<lparr>value = randomValue, hmac = generateHMAC C key randomValue\<rparr>, s'))"

text \<open>
  \<^verbatim>\<open>getFairRandom\<close> of \<^verbatim>\<open>part_000\<close>:
  \<^verbatim>\<open>do { randomValue = crypto.randomInt(range) } while (randomValue >= range)\<close>.
  The loop has no bound of its own; not returning is \<open>None\<close>.
\<close>

partial_function (option) drawBelow :: "'r crypto \<Rightarrow> int \<Rightarrow> 'r \<Rightarrow> (int \<times> 'r) option" where
  "drawBelow C rangeN s =
     (case randomInt C rangeN s of
        (randomValue, s') \<Rightarrow>
          if randomValue \<ge> rangeN then drawBelow C rangeN s' else Some (randomValue, s'))"

definition getFairRandom_retry :: "'r crypto \<Rightarrow> int \<Rightarrow> string \<Rightarrow> 'r \<Rightarrow> (fair \<times> 'r) option" where
  "getFairRandom_retry C rangeN key s =
     (case drawBelow C rangeN s of
        None \<Rightarrow> None
      | Some (randomValue, s') \<Rightarrow>
          Some (\<lparr>value = randomValue, hmac = generateHMAC C key randomValue\<rparr>, s'))"

section \<open>Dice\<close>

datatype error = TooFewDice | BadDice | TypeError

text \<open>
  A \<^verbatim>\<open>Dice\<close> object.  Objects are compared by reference (\<^verbatim>\<open>!==\<close>), so each carries the
  identity \<open>ident\<close> it was allocated with; \<open>sides\<close> are the validated faces.
\<close>

record Dice =
  ident :: nat
  sides :: "int list"

text \<open>
  The constructor, called at the fresh identity \<open>a\<close>.  \<^verbatim>\<open>Array.isArray\<close> holds of every
  array that \<^verbatim>\<open>map(Number)\<close> returns.
\<close>

definition Dice_new :: "nat \<Rightarrow> number list \<Rightarrow> error + Dice" where
  "Dice_new a xs =
     (if length xs \<noteq> 6 \<or> list_ex badSide xs then Inl BadDice
      else Inr \<lparr>ident = a, sides = map integerOf xs\<rparr>)"

text \<open>
  \<^verbatim>\<open>roll(index)\<close> of \<^verbatim>\<open>app.js\<close>: \<^verbatim>\<open>this.sides[index % this.sides.length]\<close>.  A remainder by
  zero is \<open>NaN\<close>, and reading an array at \<open>NaN\<close> or outside \<open>0 .. length - 1\<close> is
  \<^verbatim>\<open>undefined\<close>.
\<close>

definition roll :: "Dice \<Rightarrow> int \<Rightarrow> int option" where
  "roll d index =
     (let n = int (length (sides d)) in
      if n = 0 then None
      else let i = js_rem index n in
           if 0 \<le> i \<and> i < n then Some (sides d ! nat i) else None)"

text \<open>
  \<^verbatim>\<open>roll()\<close> of \<^verbatim>\<open>part_000\<close>: \<^verbatim>\<open>this.sides[Math.floor(Math.random() * this.sides.length)]\<close>,
  where \<open>u\<close> is the number that \<^verbatim>\<open>Math.random()\<close> returned for this call.  The product is
  exact here; in floating point it is exact as well at the draws \<open>0\<close> and \<open>1/2\<close> used below.
\<close>

definition roll_random :: "Dice \<Rightarrow> rat \<Rightarrow> int option" where
  "roll_random d u =
     (let n = int (length (sides d)); i = \<lfloor>u * of_int n\<rfloor> in
      if 0 \<le> i \<and> i < n then Some (sides d ! nat i) else None)"

section \<open>DiceGame\<close>

record Scores =
  user :: int
  computer :: int

record DiceGame =
  diceOptions :: "Dice list"
  scores :: Scores

text \<open>
  \<^verbatim>\<open>args.map(arg => new Dice(arg.split(',').map(Number)))\<close>: one fresh object per
  argument, in order; the first constructor that throws ends the map.
\<close>

fun newDice :: "(string \<Rightarrow> number) \<Rightarrow> nat \<Rightarrow> string list \<Rightarrow> error + Dice list" where
  "newDice N a [] = Inr []"
| "newDice N a (arg # args) =
     (case Dice_new a (map N (split_comma arg)) of
        Inl e \<Rightarrow> Inl e
      | Inr d \<Rightarrow> (case newDice N (Suc a) args of
                   Inl e \<Rightarrow> Inl e
                 | Inr ds \<Rightarrow> Inr (d # ds)))"

definition DiceGame_new :: "(string \<Rightarrow> number) \<Rightarrow> string list \<Rightarrow> error + DiceGame" where
  "DiceGame_new N args =
     (if length args < 3 then Inl TooFewDice
      else (case newDice N 0 args of
              Inl e \<Rightarrow> Inl e
            | Inr ds \<Rightarrow> Inr \<lparr>diceOptions = ds, scores = \<lparr>user = 0, computer = 0\<rparr>\<rparr>))"

text \<open>
  What the game reads while it runs: the lines the user will type and the entropy of the
  crypto module.  A prompt with no line left never resolves (\<open>None\<close>).
\<close>

record 'r world =
  stdin :: "string list"
  entropy :: 'r

definition getUserInput :: "'r world \<Rightarrow> (string \<times> 'r world) option" where
  "getUserInput w = (case stdin w of [] \<Rightarrow> None | l # ls \<Rightarrow> Some (l, w\<lparr>stdin := ls\<rparr>))"

datatype player = User | Computer

definition determineFirstMove :: "'r crypto \<Rightarrow> 'r world \<Rightarrow> (player \<times> 'r world) option" where
  "determineFirstMove C w =
     (case generateKey C (entropy w) of (key, e1) \<Rightarrow>
      case getFairRandom C 2 key e1 of (fr, e2) \<Rightarrow>
      case getUserInput (w\<lparr>entropy := e2\<rparr>) of
        None \<Rightarrow> None
      | Some (userGuess, w') \<Rightarrow>
          Some (if parseInt userGuess = Some (value fr) then User else Computer, w'))"

text \<open>
  The loop of \<^verbatim>\<open>chooseDice\<close>:
  \<^verbatim>\<open>do { choice = parseInt(...) } while (isNaN(choice) || choice < 0 || choice >= this.diceOptions.length)\<close>.
\<close>

fun chooseDice_loop :: "Dice list \<Rightarrow> string list \<Rightarrow> (Dice \<times> string list) option" where
  "chooseDice_loop opts [] = None"
| "chooseDice_loop opts (l # ls) =
     (case parseInt l of
        None \<Rightarrow> chooseDice_loop opts ls
      | Some choice \<Rightarrow>
          if choice < 0 \<or> choice \<ge> int (length opts) then chooseDice_loop opts ls
          else Some (opts ! nat choice, ls))"

definition chooseDice :: "DiceGame \<Rightarrow> 'r world \<Rightarrow> (Dice \<times> 'r world) option" where
  "chooseDice g w =
     (case chooseDice_loop (diceOptions g) (stdin w) of
        None \<Rightarrow> None
      | Some (d, ls) \<Rightarrow> Some (d, w\<lparr>stdin := ls\<rparr>))"

text \<open>
  The loop of \<^verbatim>\<open>playRound\<close>:
  \<^verbatim>\<open>do { userNumber = parseInt(...) } while (isNaN(userNumber) || userNumber < 0 || userNumber > 5)\<close>.
\<close>

fun userNumber_loop :: "string list \<Rightarrow> (int \<times> string list) option" where
  "userNumber_loop [] = None"
| "userNumber_loop (l # ls) =
     (case parseInt l of
        None \<Rightarrow> userNumber_loop ls
      | Some userNumber \<Rightarrow>
          if userNumber < 0 \<or> userNumber > 5 then userNumber_loop ls
          else Some (userNumber, ls))"

text \<open>\<^verbatim>\<open>const finalIndex = (userNumber + value) % 6\<close>.\<close>

definition finalIndex :: "int \<Rightarrow> int \<Rightarrow> int" where
  "finalIndex userNumber v = js_rem (userNumber + v) 6"

text \<open>The two throws of \<^verbatim>\<open>app.js\<close>: \<open>(userRoll, computerRoll)\<close>, both at \<open>finalIndex\<close>.\<close>

definition throws :: "Dice \<Rightarrow> Dice \<Rightarrow> int \<Rightarrow> int \<Rightarrow> int option \<times> int option" where
  "throws playerDice computerDice userNumber v =
     (let i = finalIndex userNumber v in (roll playerDice i, roll computerDice i))"

text \<open>
  The two throws of \<^verbatim>\<open>part_000\<close>: the sum modulo 6 is printed, and each die is then rolled
  with \<^verbatim>\<open>Math.random()\<close>, whose two results are \<open>u1\<close> and \<open>u2\<close>.
\<close>

definition throws_random ::
  "Dice \<Rightarrow> Dice \<Rightarrow> int \<Rightarrow> int \<Rightarrow> rat \<Rightarrow> rat \<Rightarrow> int option \<times> int option" where
  "throws_random playerDice computerDice userNumber v u1 u2 =
     (roll_random playerDice u1, roll_random computerDice u2)"

text \<open>\<^verbatim>\<open>a > b\<close> on throws; a comparison with \<^verbatim>\<open>undefined\<close> is false.\<close>

fun js_gt :: "int option \<Rightarrow> int option \<Rightarrow> bool" where
  "js_gt (Some a) (Some b) = (a > b)"
| "js_gt _ _ = False"

definition score :: "int option \<Rightarrow> int option \<Rightarrow> Scores \<Rightarrow> Scores" where
  "score userRoll computerRoll sc =
     (if js_gt userRoll computerRoll then sc\<lparr>user := user sc + 1\<rparr>
      else if js_gt computerRoll userRoll then sc\<lparr>computer := computer sc + 1\<rparr>
      else sc)"

text \<open>
  The results of the asynchronous methods: waiting for a line that never comes, a thrown
  error, or a value.
\<close>

datatype 'a outcome = Blocked | Throws error | Done 'a

text \<open>
  \<^verbatim>\<open>playRound\<close>.  The dice come from \<^verbatim>\<open>find\<close> and may be \<^verbatim>\<open>undefined\<close>, on which
  \<^verbatim>\<open>.roll\<close> throws a \<^verbatim>\<open>TypeError\<close>.
\<close>

definition playRound ::
  "'r crypto \<Rightarrow> DiceGame \<Rightarrow> Dice option \<Rightarrow> Dice option \<Rightarrow> 'r world \<Rightarrow> (DiceGame \<times> 'r world) outcome" where
  "playRound C g playerDice computerDice w =
     (case generateKey C (entropy w) of (key, e1) \<Rightarrow>
      case getFairRandom C 6 key e1 of (fr, e2) \<Rightarrow>
      case userNumber_loop (stdin w) of
        None \<Rightarrow> Blocked
      | Some (userNumber, ls) \<Rightarrow>
          (case playerDice of
             None \<Rightarrow> Throws TypeError
           | Some pd \<Rightarrow>
               (case computerDice of
                  None \<Rightarrow> Throws TypeError
                | Some cd \<Rightarrow>
                    (case throws pd cd userNumber (value fr) of
                       (userRoll, computerRoll) \<Rightarrow>
                         Done (g\<lparr>scores := score userRoll computerRoll (scores g)\<rparr>,
                               \<lparr>stdin = ls, entropy = e2\<rparr>)))))"

text \<open>\<^verbatim>\<open>this.diceOptions.find(d => d !== chosen)\<close>: the first object that is not \<open>chosen\<close>.\<close>

definition otherDice :: "DiceGame \<Rightarrow> Dice \<Rightarrow> Dice option" where
  "otherDice g chosen = List.find (\<lambda>d. ident d \<noteq> ident chosen) (diceOptions g)"

text \<open>The body of the loop of \<^verbatim>\<open>playGame\<close>, which is also the body of \<^verbatim>\<open>start\<close> in \<^verbatim>\<open>part_000\<close>.\<close>

definition playOne :: "'r crypto \<Rightarrow> DiceGame \<Rightarrow> 'r world \<Rightarrow> (DiceGame \<times> 'r world) outcome" where
  "playOne C g w =
     (case determineFirstMove C w of
        None \<Rightarrow> Blocked
      | Some (firstPlayer, w1) \<Rightarrow>
          if firstPlayer = User then
            (case chooseDice g w1 of
               None \<Rightarrow> Blocked
             | Some (userDice, w2) \<Rightarrow> playRound C g (Some userDice) (otherDice g userDice) w2)
          else
            (case chooseDice g w1 of
               None \<Rightarrow> Blocked
             | Some (computerDice, w2) \<Rightarrow>
                 playRound C g (otherDice g computerDice) (Some computerDice) w2))"

fun playRounds :: "'r crypto \<Rightarrow> nat \<Rightarrow> DiceGame \<Rightarrow> 'r world \<Rightarrow> (DiceGame \<times> 'r world) outcome" where
  "playRounds C 0 g w = Done (g, w)"
| "playRounds C (Suc n) g w =
     (case playOne C g w of
        Blocked \<Rightarrow> Blocked
      | Throws e \<Rightarrow> Throws e
      | Done (g', w') \<Rightarrow> playRounds C n g' w')"

text \<open>The last message of \<^verbatim>\<open>playGame\<close>.\<close>

definition announce :: "Scores \<Rightarrow> string" where
  "announce sc = (if user sc > computer sc then ''Congratulations, you win!'' else ''I win the game!'')"

text \<open>
  \<^verbatim>\<open>playGame\<close>: the number of rounds is read once, without a check; \<open>NaN\<close> and negative
  numbers give no round.  The result is the final scores and the final message.
\<close>

definition playGame :: "'r crypto \<Rightarrow> DiceGame \<Rightarrow> 'r world \<Rightarrow> (Scores \<times> string) outcome" where
  "playGame C g w =
     (case getUserInput w of
        None \<Rightarrow> Blocked
      | Some (l, w0) \<Rightarrow>
          (case playRounds C (case parseInt l of None \<Rightarrow> 0 | Some rounds \<Rightarrow> nat rounds) g w0 of
             Blocked \<Rightarrow> Blocked
           | Throws e \<Rightarrow> Throws e
           | Done (g', w') \<Rightarrow> Done (scores g', announce (scores g'))))"

text \<open>
  The script: the constructor runs inside \<^verbatim>\<open>try\<close>, and \<^verbatim>\<open>playGame\<close> is only called on the
  object it returned.  \<open>Inl e\<close> is the error that \<^verbatim>\<open>catch\<close> prints.
\<close>

definition main ::
  "(string \<Rightarrow> number) \<Rightarrow> 'r crypto \<Rightarrow> string list \<Rightarrow> 'r world \<Rightarrow> error + (Scores \<times> string) outcome" where
  "main N C diceConfigurations w =
     (case DiceGame_new N diceConfigurations of
        Inl e \<Rightarrow> Inl e
      | Inr game \<Rightarrow> Inr (playGame C game w))"

section \<open>Specification-level definitions\<close>

text \<open>
  Modelled from the spec: the source has no \<^verbatim>\<open>verify\<close>; the game prints the key and the
  HMAC and leaves the check to the user.  The spec describes
  \<^verbatim>\<open>verify(key, value, commitment)\<close> as recomputing \<^verbatim>\<open>commit(key, value)\<close>, which is
  \<^verbatim>\<open>generateHMAC\<close> in the source, and comparing it for exact equality with the commitment.
\<close>

definition verify :: "'r crypto \<Rightarrow> string \<Rightarrow> int \<Rightarrow> string \<Rightarrow> bool" where
  "verify C key v commitment = (generateHMAC C key v = commitment)"

text \<open>The spec's wording of a well-formed die: exactly 6 entries, all integers \<open>\<ge> 1\<close>.\<close>

definition sixPositiveIntegers :: "number list \<Rightarrow> bool" where
  "sixPositiveIntegers xs = (length xs = 6 \<and> (\<forall>x \<in> set xs. \<exists>n. x = Integer n \<and> 1 \<le> n))"

section \<open>Instances of the parameters, for running the model\<close>

text \<open>
  The theorems below hold for every \<open>N\<close> and every crypto module \<open>C\<close>.  To run the model
  on examples, \<open>exampleNumber\<close> is \<^verbatim>\<open>Number\<close> on the strings of at most 15 decimal digits,
  the empty string included (which is \<open>0\<close>).  On every other string it answers
  \<open>NonInteger\<close>, which is not what \<^verbatim>\<open>Number\<close> does on, for example, \<^verbatim>\<open>1e1\<close>, \<^verbatim>\<open>0x10\<close>, a
  string with white space around the digits, or a longer string of digits; the examples
  use none of these.  \<open>exampleCrypto\<close> draws from a counter.
\<close>

definition exampleNumber :: "string \<Rightarrow> number" where
  "exampleNumber s =
     (if length s \<le> 15 \<and> list_all (isDigitIn 10) s then Integer (digitsValue 10 s)
      else NonInteger)"

definition exampleCrypto :: "int crypto" where
  "exampleCrypto =
     \<lparr>randomInt = (\<lambda>r s. (s mod r, s + 1)),
      randomBytesHex = (\<lambda>n s. (replicate (2 * n) CHR ''0'', s + 1)),
      createHmac = (\<lambda>key msg. key @ msg)\<rparr>"

definition efron :: "string list" where
  "efron = [''2,2,4,4,9,9'', ''1,1,1,4,4,4'', ''3,3,5,5,7,7'']"

section \<open>The remainder operator and \<^verbatim>\<open>roll\<close>\<close>

lemma js_rem_nonneg: "0 \<le> a \<Longrightarrow> 0 < b \<Longrightarrow> js_rem a b = a mod b"
  by (simp add: js_rem_def sgn_if)

lemma js_rem_neg: "a < 0 \<Longrightarrow> 0 < b \<Longrightarrow> js_rem a b = - ((- a) mod b)"
  by (simp add: js_rem_def sgn_if)

lemma roll_six:
  assumes "length (sides d) = 6"
  shows "roll d i = (if 0 \<le> i \<or> 6 dvd i then Some (sides d ! nat (i mod 6)) else None)"
proof (cases "0 \<le> i")
  case True
  then show ?thesis using assms by (simp add: roll_def js_rem_nonneg)
next
  case False
  then have neg: "i < 0" by simp
  show ?thesis
  proof (cases "6 dvd i")
    case True
    then have "(- i) mod 6 = 0" by presburger
    moreover from True have "i mod 6 = 0" by presburger
    ultimately show ?thesis using assms neg True by (simp add: roll_def js_rem_neg)
  next
    case nd: False
    then have "0 < (- i) mod 6" by presburger
    then show ?thesis using assms neg nd by (simp add: roll_def js_rem_neg)
  qed
qed


text \<open>
  C2.  For every range \<open>R \<ge> 1\<close> and contributions \<open>c\<close> and \<open>v\<close> in \<open>[0, R)\<close>, the
  remainder \<^verbatim>\<open>(c + v) % R\<close> is \<open>(c + v) mod R\<close> and is the same in either order; the
  \<^verbatim>\<open>finalIndex\<close> of \<^verbatim>\<open>playRound\<close> is this index at \<open>R = 6\<close>.
\<close>

theorem combined_index:
  assumes "1 \<le> R" "0 \<le> c" "c < R" "0 \<le> v" "v < R"
  shows "js_rem (c + v) R = (c + v) mod R
       \<and> js_rem (c + v) R = js_rem (v + c) R
       \<and> (R = 6 \<longrightarrow> finalIndex c v = (c + v) mod R \<and> finalIndex c v = finalIndex v c)"
  using assms by (simp add: finalIndex_def js_rem_nonneg add.commute)

theorem combined_index_witness:
  "(1::int) \<le> 6 \<and> (0::int) \<le> 2 \<and> (2::int) < 6 \<and> (0::int) \<le> 3 \<and> (3::int) < 6
   \<and> finalIndex 2 3 = 5 \<and> finalIndex 2 3 = finalIndex 3 2 \<and> js_rem (2 + 3) 6 = 5"
  using combined_index [of 6 2 3] by simp

section \<open>The fair value generator\<close>

lemma drawBelow_first:
  assumes "fst (randomInt C R s) < R"
  shows "drawBelow C R s = Some (randomInt C R s)"
  using assms by (subst drawBelow.simps) (simp add: case_prod_beta)

text \<open>
  C7.  Take a range \<open>R \<ge> 1\<close> and an entropy state in which \<^verbatim>\<open>crypto.randomInt(R)\<close> keeps its
  contract, a result in \<open>[0, R)\<close>.  Then \<^verbatim>\<open>getFairRandom\<close> returns a value in \<open>[0, R)\<close>, and
  the variant with the retry loop returns, with the same value, the same HMAC and the same
  entropy state, which is the state after exactly one draw.
\<close>

theorem getFairRandom_in_range:
  assumes "1 \<le> R"
    and "0 \<le> fst (randomInt C R s) \<and> fst (randomInt C R s) < R"
  shows "0 \<le> value (fst (getFairRandom C R key s))
       \<and> value (fst (getFairRandom C R key s)) < R
       \<and> getFairRandom_retry C R key s = Some (getFairRandom C R key s)
       \<and> snd (getFairRandom C R key s) = snd (randomInt C R s)"
  using assms
  by (simp add: getFairRandom_def getFairRandom_retry_def drawBelow_first case_prod_beta)

theorem getFairRandom_in_range_witness:
  "(1::int) \<le> 6
   \<and> 0 \<le> fst (randomInt exampleCrypto 6 4) \<and> fst (randomInt exampleCrypto 6 4) < 6
   \<and> value (fst (getFairRandom exampleCrypto 6 ''k'' 4)) = 4
   \<and> getFairRandom_retry exampleCrypto 6 ''k'' 4 = Some (getFairRandom exampleCrypto 6 ''k'' 4)"
  using getFairRandom_in_range [of 6 exampleCrypto 4 "''k''"]
  by (simp add: exampleCrypto_def getFairRandom_def)

section \<open>Commitments\<close>

text \<open>
  C6.  \<^verbatim>\<open>verify(key, value, commit(key, value))\<close> is true, and on every other commitment
  string, well-formed or not, \<^verbatim>\<open>verify\<close> is false; it has no error case.  In particular
  the HMAC that \<^verbatim>\<open>getFairRandom\<close> returns verifies against the key it was given and the
  value it returns.
\<close>

theorem verify_commit:
  "verify C key v (generateHMAC C key v)
   \<and> (commitment \<noteq> generateHMAC C key v \<longrightarrow> \<not> verify C key v commitment)
   \<and> verify C key (value (fst (getFairRandom C R key s))) (hmac (fst (getFairRandom C R key s)))"
  by (auto simp add: verify_def getFairRandom_def split: prod.splits)

theorem verify_commit_witness:
  "verify exampleCrypto ''k'' 3 (generateHMAC exampleCrypto ''k'' 3)
   \<and> ''zz'' \<noteq> generateHMAC exampleCrypto ''k'' 3
   \<and> \<not> verify exampleCrypto ''k'' 3 ''zz''"
  using verify_commit [of exampleCrypto "''k''" 3 "''zz''" 6 0]
  by (simp add: generateHMAC_def exampleCrypto_def)

section \<open>One round\<close>

lemma userNumber_loop_range:
  "userNumber_loop ls = Some (n, rest) \<Longrightarrow> 0 \<le> n \<and> n \<le> 5"
  by (induction ls) (auto split: option.splits if_splits)

lemma throws_six:
  assumes "length (sides pd) = 6" "length (sides cd) = 6" "0 \<le> c" "0 \<le> v"
  shows "throws pd cd c v
         = (Some (sides pd ! nat ((c + v) mod 6)), Some (sides cd ! nat ((c + v) mod 6)))"
  using assms by (simp add: throws_def finalIndex_def js_rem_nonneg roll_six Let_def)

lemma score_Some:
  "score (Some a) (Some b) sc =
     (if a > b then sc\<lparr>user := user sc + 1\<rparr>
      else if a < b then sc\<lparr>computer := computer sc + 1\<rparr> else sc)"
  by (simp add: score_def)

text \<open>
  C4.  A round between two dice of six faces, in which the house drew \<open>value fr \<ge> 0\<close> and the
  prompt loop accepted the contribution \<open>c\<close>, ends with the game's scores replaced by
  \<open>sc\<close>, where \<open>a\<close> and \<open>b\<close> are the faces of the user's and the computer's die at
  \<open>(c + value fr) mod 6\<close>: if \<open>a > b\<close> the user's score is one higher and the computer's
  is unchanged, if \<open>a < b\<close> the computer's score is one higher and the user's is unchanged,
  and if \<open>a = b\<close> the scores are unchanged.
\<close>

theorem round_scoring:
  assumes "length (sides pd) = 6" and "length (sides cd) = 6"
    and "generateKey C (entropy w) = (key, e1)"
    and "getFairRandom C 6 key e1 = (fr, e2)"
    and "0 \<le> value fr"
    and "userNumber_loop (stdin w) = Some (c, ls)"
  shows "let a = sides pd ! nat ((c + value fr) mod 6);
             b = sides cd ! nat ((c + value fr) mod 6)
         in \<exists>sc. playRound C g (Some pd) (Some cd) w
                   = Done (g\<lparr>scores := sc\<rparr>, \<lparr>stdin = ls, entropy = e2\<rparr>)
               \<and> (a > b \<longrightarrow> sc = (scores g)\<lparr>user := user (scores g) + 1\<rparr>)
               \<and> (a < b \<longrightarrow> sc = (scores g)\<lparr>computer := computer (scores g) + 1\<rparr>)
               \<and> (a = b \<longrightarrow> sc = scores g)"
proof -
  from assms(6) have c: "0 \<le> c" by (simp add: userNumber_loop_range)
  have t: "throws pd cd c (value fr)
         = (Some (sides pd ! nat ((c + value fr) mod 6)), Some (sides cd ! nat ((c + value fr) mod 6)))"
    using assms(1,2,5) c by (simp add: throws_six)
  show ?thesis
    using assms(3,4,6) by (simp add: playRound_def t score_Some Let_def)
qed

theorem round_scoring_witness:
  "length (sides \<lparr>ident = 0, sides = [2, 2, 4, 4, 9, 9]\<rparr>) = 6
   \<and> length (sides \<lparr>ident = 1, sides = [1, 1, 1, 4, 4, 4]\<rparr>) = 6
   \<and> generateKey exampleCrypto (entropy \<lparr>stdin = [''9'', ''0''], entropy = 0\<rparr>)
       = (replicate 64 CHR ''0'', 1)
   \<and> value (fst (getFairRandom exampleCrypto 6 (replicate 64 CHR ''0'') 1)) = 1
   \<and> userNumber_loop (stdin \<lparr>stdin = [''9'', ''0''], entropy = (0::int)\<rparr>) = Some (0, [])
   \<and> playRound exampleCrypto \<lparr>diceOptions = [], scores = \<lparr>user = 0, computer = 0\<rparr>\<rparr>
        (Some \<lparr>ident = 0, sides = [2, 2, 4, 4, 9, 9]\<rparr>)
        (Some \<lparr>ident = 1, sides = [1, 1, 1, 4, 4, 4]\<rparr>) \<lparr>stdin = [''9'', ''0''], entropy = 0\<rparr>
      = Done (\<lparr>diceOptions = [], scores = \<lparr>user = 1, computer = 0\<rparr>\<rparr>,
              \<lparr>stdin = [], entropy = 2\<rparr>)"
proof -
  have k: "generateKey exampleCrypto (entropy \<lparr>stdin = [''9'', ''0''], entropy = 0\<rparr>)
           = (replicate 64 CHR ''0'', 1)"
    by (simp add: generateKey_def exampleCrypto_def)
  have f: "getFairRandom exampleCrypto 6 (replicate 64 CHR ''0'') 1
           = (\<lparr>value = 1, hmac = generateHMAC exampleCrypto (replicate 64 CHR ''0'') 1\<rparr>, 2)"
    by (simp add: getFairRandom_def exampleCrypto_def)
  have p9: "parseInt ''9'' = Some 9" by code_simp
  have p0: "parseInt ''0'' = Some 0" by code_simp
  have u: "userNumber_loop (stdin \<lparr>stdin = [''9'', ''0''], entropy = (0::int)\<rparr>) = Some (0, [])"
    by (simp add: p9 p0)
  show ?thesis
    using round_scoring [of "\<lparr>ident = 0, sides = [2, 2, 4, 4, 9, 9]\<rparr>"
        "\<lparr>ident = 1, sides = [1, 1, 1, 4, 4, 4]\<rparr>" exampleCrypto
        "\<lparr>stdin = [''9'', ''0''], entropy = 0\<rparr>" "replicate 64 CHR ''0''" 1
        "\<lparr>value = 1, hmac = generateHMAC exampleCrypto (replicate 64 CHR ''0'') 1\<rparr>" 2 0 "[]"
        "\<lparr>diceOptions = [], scores = \<lparr>user = 0, computer = 0\<rparr>\<rparr>"]
      k f u
    by (auto simp add: Let_def)
qed

section \<open>The end of the series\<close>

text \<open>
  C5, as the code has it.  When the script ends with the scores \<open>sc\<close> and the message
  \<open>msg\<close>, the user is announced as the winner exactly when the user's score is strictly
  higher; in every other case, a tied score included, the computer announces itself as
  the winner.
\<close>

theorem series_winner:
  assumes "main N C args w = Inr (Done (sc, msg))"
  shows "(msg = ''Congratulations, you win!'' \<longleftrightarrow> user sc > computer sc)
       \<and> (msg = ''I win the game!'' \<longleftrightarrow> user sc \<le> computer sc)"
  using assms
  by (auto simp add: main_def playGame_def announce_def
      split: sum.splits option.splits outcome.splits prod.splits if_splits)

theorem series_winner_witness:
  "main exampleNumber exampleCrypto efron \<lparr>stdin = [''1'', ''0'', ''1'', ''0''], entropy = 0\<rparr>
     = Inr (Done (\<lparr>user = 0, computer = 0\<rparr>, ''I win the game!''))
   \<and> user \<lparr>user = 0, computer = 0\<rparr> \<le> computer \<lparr>user = 0, computer = 0\<rparr>"
proof -
  have h: "main exampleNumber exampleCrypto efron
             \<lparr>stdin = [''1'', ''0'', ''1'', ''0''], entropy = 0\<rparr>
           = Inr (Done (\<lparr>user = 0, computer = 0\<rparr>, ''I win the game!''))"
    by code_simp
  show ?thesis using series_winner [OF h] h by simp
qed

text \<open>
  C5 as stated fails on a tied score: at 1 to 1 the message is the computer's
  \<^verbatim>\<open>I win the game!\<close>, not the user's \<^verbatim>\<open>Congratulations, you win!\<close>.
\<close>

theorem announce_tie_counterexample:
  "announce \<lparr>user = 1, computer = 1\<rparr> = ''I win the game!''
   \<and> announce \<lparr>user = 1, computer = 1\<rparr> \<noteq> ''Congratulations, you win!''"
  by (simp add: announce_def)

section \<open>Throws at the combined index and throws at random\<close>

lemma nth_one_to_six:
  assumes "0 \<le> i" "i < 6"
  shows "[1, 2, 3, 4, 5, 6 :: int] ! nat i = i + 1"
proof -
  from assms have "i = 0 \<or> i = 1 \<or> i = 2 \<or> i = 3 \<or> i = 4 \<or> i = 5" by arith
  then show ?thesis by auto
qed

lemma throws_random_differs:
  assumes "0 \<le> c" "0 \<le> v"
  shows "\<exists>u1. 0 \<le> u1 \<and> u1 < 1
          \<and> throws_random \<lparr>ident = 0, sides = [1, 2, 3, 4, 5, 6]\<rparr> \<lparr>ident = 1, sides = [1, 2, 3, 4, 5, 6]\<rparr> c v u1 0
            \<noteq> throws \<lparr>ident = 0, sides = [1, 2, 3, 4, 5, 6]\<rparr> \<lparr>ident = 1, sides = [1, 2, 3, 4, 5, 6]\<rparr> c v"
proof -
  let ?D = "\<lparr>ident = 0, sides = [1, 2, 3, 4, 5, 6 :: int]\<rparr>"
  let ?E = "\<lparr>ident = 1, sides = [1, 2, 3, 4, 5, 6 :: int]\<rparr>"
  let ?i = "(c + v) mod 6"
  have i: "0 \<le> ?i" "?i < 6" by simp_all
  have t: "fst (throws ?D ?E c v) = Some (?i + 1)"
    using assms i by (simp add: throws_six nth_one_to_six)
  show ?thesis
  proof (cases "?i = 0")
    case True
    have "fst (throws_random ?D ?E c v (1 / 2) 0) = Some 4"
      by (simp add: throws_random_def roll_random_def)
    with t True have "throws_random ?D ?E c v (1 / 2) 0 \<noteq> throws ?D ?E c v"
      by auto
    then show ?thesis by (intro exI [of _ "1 / 2"]) simp
  next
    case False
    have "fst (throws_random ?D ?E c v 0 0) = Some 1"
      by (simp add: throws_random_def roll_random_def)
    with t False have "throws_random ?D ?E c v 0 0 \<noteq> throws ?D ?E c v"
      by auto
    then show ?thesis by (intro exI [of _ 0]) simp
  qed
qed

text \<open>
  C1.  With dice of six faces and both contributions in \<open>0 .. 5\<close>, the two throws of
  \<^verbatim>\<open>playRound\<close> in \<^verbatim>\<open>app.js\<close> are the faces of the two dice at the one index
  \<open>(c + v) mod 6\<close>, so they are a function of the dice and the contributions.  The variant
  of \<^verbatim>\<open>part_000\<close>, which rolls each die with \<^verbatim>\<open>Math.random()\<close>, is not equivalent: at the same
  contributions there are dice and random draws in \<open>[0, 1)\<close> for which its throws differ.
\<close>

theorem throws_at_combined_index:
  assumes "length (sides pd) = 6" and "length (sides cd) = 6"
    and "0 \<le> c" "c \<le> 5" "0 \<le> v" "v \<le> 5"
  shows "throws pd cd c v
           = (Some (sides pd ! nat ((c + v) mod 6)), Some (sides cd ! nat ((c + v) mod 6)))
       \<and> (\<exists>pd' cd' u1 u2. length (sides pd') = 6 \<and> length (sides cd') = 6
            \<and> 0 \<le> u1 \<and> u1 < 1 \<and> 0 \<le> u2 \<and> u2 < 1
            \<and> throws_random pd' cd' c v u1 u2 \<noteq> throws pd' cd' c v)"
proof
  show "throws pd cd c v
           = (Some (sides pd ! nat ((c + v) mod 6)), Some (sides cd ! nat ((c + v) mod 6)))"
    using assms by (simp add: throws_six)
next
  from throws_random_differs [OF assms(3) assms(5)]
  obtain u1 where "0 \<le> u1" "u1 < 1"
    and "throws_random \<lparr>ident = 0, sides = [1, 2, 3, 4, 5, 6]\<rparr> \<lparr>ident = 1, sides = [1, 2, 3, 4, 5, 6]\<rparr> c v u1 0
            \<noteq> throws \<lparr>ident = 0, sides = [1, 2, 3, 4, 5, 6]\<rparr> \<lparr>ident = 1, sides = [1, 2, 3, 4, 5, 6]\<rparr> c v"
    by blast
  then show "\<exists>pd' cd' u1 u2. length (sides pd') = 6 \<and> length (sides cd') = 6
            \<and> 0 \<le> u1 \<and> u1 < 1 \<and> 0 \<le> u2 \<and> u2 < 1
            \<and> throws_random pd' cd' c v u1 u2 \<noteq> throws pd' cd' c v"
    by (intro exI [of _ "\<lparr>ident = 0, sides = [1, 2, 3, 4, 5, 6]\<rparr>"]
        exI [of _ "\<lparr>ident = 1, sides = [1, 2, 3, 4, 5, 6]\<rparr>"] exI [of _ u1] exI [of _ 0]) simp
qed

theorem throws_at_combined_index_witness:
  "length (sides \<lparr>ident = 0, sides = [1, 2, 3, 4, 5, 6]\<rparr>) = 6
   \<and> length (sides \<lparr>ident = 1, sides = [3, 3, 5, 5, 7, 7]\<rparr>) = 6
   \<and> (0::int) \<le> 2 \<and> (2::int) \<le> 5 \<and> (0::int) \<le> 3 \<and> (3::int) \<le> 5
   \<and> throws \<lparr>ident = 0, sides = [1, 2, 3, 4, 5, 6]\<rparr> \<lparr>ident = 1, sides = [3, 3, 5, 5, 7, 7]\<rparr> 2 3
       = (Some 6, Some 7)
   \<and> throws_random \<lparr>ident = 0, sides = [1, 2, 3, 4, 5, 6]\<rparr> \<lparr>ident = 1, sides = [3, 3, 5, 5, 7, 7]\<rparr> 2 3 (1 / 2) 0
       = (Some 4, Some 3)"
  using throws_at_combined_index [of "\<lparr>ident = 0, sides = [1, 2, 3, 4, 5, 6]\<rparr>"
      "\<lparr>ident = 1, sides = [3, 3, 5, 5, 7, 7]\<rparr>" 2 3]
  by (simp add: throws_random_def roll_random_def)

section \<open>Construction\<close>

lemma badSide_iff: "badSide x \<longleftrightarrow> \<not> (\<exists>n. x = Integer n \<and> 1 \<le> n)"
  by (cases x) auto

lemma Dice_new_fails: "(\<exists>e. Dice_new a xs = Inl e) \<longleftrightarrow> \<not> sixPositiveIntegers xs"
  by (auto simp add: Dice_new_def sixPositiveIntegers_def list_ex_iff badSide_iff)

lemma Dice_new_cases:
  "(\<not> sixPositiveIntegers xs \<and> Dice_new a xs = Inl BadDice)
   \<or> (sixPositiveIntegers xs \<and> Dice_new a xs = Inr \<lparr>ident = a, sides = map integerOf xs\<rparr>)"
  by (auto simp add: Dice_new_def sixPositiveIntegers_def list_ex_iff badSide_iff)

lemma newDice_fails:
  "(\<exists>e. newDice N a args = Inl e)
   \<longleftrightarrow> (\<exists>arg \<in> set args. \<not> sixPositiveIntegers (map N (split_comma arg)))"
proof (induction args arbitrary: a)
  case Nil
  show ?case by simp
next
  case (Cons arg args)
  from Dice_new_cases [of "map N (split_comma arg)" a] Cons [of "Suc a"]
  show ?case by (auto split: sum.splits)
qed

lemma split_123: "split_comma ''1,2,3'' = [''1'', ''2'', ''3'']"
  by simp

lemma not_six_123: "\<not> sixPositiveIntegers (map N (split_comma ''1,2,3''))"
  by (simp add: sixPositiveIntegers_def)

lemma DiceGame_new_fails:
  "(\<exists>e. DiceGame_new N args = Inl e)
   \<longleftrightarrow> (length args < 3 \<or> (\<exists>arg \<in> set args. \<not> sixPositiveIntegers (map N (split_comma arg))))"
proof (cases "length args < 3")
  case True
  then show ?thesis by (simp add: DiceGame_new_def)
next
  case False
  then have "(\<exists>e. DiceGame_new N args = Inl e) \<longleftrightarrow> (\<exists>e. newDice N 0 args = Inl e)"
    by (auto simp add: DiceGame_new_def split: sum.splits)
  with False show ?thesis by (simp add: newDice_fails)
qed

text \<open>
  C8.  The constructor of the game fails if and only if fewer than 3 configurations are given
  or some configuration, split at commas and converted with \<^verbatim>\<open>Number\<close>, is not exactly 6
  integers \<open>\<ge> 1\<close>.  When it fails the script ends with that error and \<^verbatim>\<open>playGame\<close> is never
  called; a list of configurations that contains \<^verbatim>\<open>1,2,3\<close> ends so.
\<close>

theorem configuration_error:
  "((\<exists>e. DiceGame_new N args = Inl e)
      \<longleftrightarrow> (length args < 3 \<or> (\<exists>arg \<in> set args. \<not> sixPositiveIntegers (map N (split_comma arg)))))
   \<and> (\<forall>e. DiceGame_new N args = Inl e \<longrightarrow> main N C args w = Inl e)
   \<and> (''1,2,3'' \<in> set args \<longrightarrow> (\<exists>e. main N C args w = Inl e))"
proof (intro conjI)
  show "(\<exists>e. DiceGame_new N args = Inl e)
      \<longleftrightarrow> (length args < 3 \<or> (\<exists>arg \<in> set args. \<not> sixPositiveIntegers (map N (split_comma arg))))"
    by (rule DiceGame_new_fails)
  show "\<forall>e. DiceGame_new N args = Inl e \<longrightarrow> main N C args w = Inl e"
    by (simp add: main_def)
  show "''1,2,3'' \<in> set args \<longrightarrow> (\<exists>e. main N C args w = Inl e)"
  proof
    assume "''1,2,3'' \<in> set args"
    with not_six_123 [of N] have "\<exists>e. DiceGame_new N args = Inl e"
      unfolding DiceGame_new_fails by blast
    then show "\<exists>e. main N C args w = Inl e" by (auto simp add: main_def)
  qed
qed

theorem configuration_error_witness:
  "''1,2,3'' \<in> set [''2,2,4,4,9,9'', ''1,2,3'', ''3,3,5,5,7,7'']
   \<and> \<not> sixPositiveIntegers (map exampleNumber (split_comma ''1,2,3''))
   \<and> DiceGame_new exampleNumber [''2,2,4,4,9,9'', ''1,2,3'', ''3,3,5,5,7,7''] = Inl BadDice
   \<and> main exampleNumber exampleCrypto [''2,2,4,4,9,9'', ''1,2,3'', ''3,3,5,5,7,7'']
        \<lparr>stdin = [''1'', ''0'', ''0'', ''0''], entropy = 0\<rparr> = Inl BadDice"
proof -
  have d: "DiceGame_new exampleNumber [''2,2,4,4,9,9'', ''1,2,3'', ''3,3,5,5,7,7''] = Inl BadDice"
    by code_simp
  have n: "\<not> sixPositiveIntegers (map exampleNumber (split_comma ''1,2,3''))"
    by (simp add: sixPositiveIntegers_def)
  show ?thesis
    using configuration_error [of exampleNumber "[''2,2,4,4,9,9'', ''1,2,3'', ''3,3,5,5,7,7'']"
        exampleCrypto "\<lparr>stdin = [''1'', ''0'', ''0'', ''0''], entropy = 0\<rparr>"] d n
    by simp
qed

section \<open>The two dice of a round\<close>

lemma newDice_idents:
  "newDice N a args = Inr ds \<Longrightarrow> map ident ds = [a ..< a + length args]"
proof (induction args arbitrary: a ds)
  case Nil
  then show ?case by simp
next
  case (Cons arg args)
  from Cons.prems obtain d ds' where d: "Dice_new a (map N (split_comma arg)) = Inr d"
    and ds': "newDice N (Suc a) args = Inr ds'" and ds: "ds = d # ds'"
    by (auto split: sum.splits)
  from d have "ident d = a" by (auto simp add: Dice_new_def split: if_splits)
  moreover from Cons.IH [OF ds'] have "map ident ds' = [Suc a ..< Suc a + length args]" .
  moreover have "[a ..< a + length (arg # args)] = a # [Suc a ..< Suc a + length args]"
    by (simp add: upt_conv_Cons del: upt_Suc)
  ultimately show ?case using ds by simp
qed

lemma newDice_six:
  "newDice N a args = Inr ds \<Longrightarrow> \<forall>d \<in> set ds. length (sides d) = 6 \<and> (\<forall>x \<in> set (sides d). 1 \<le> x)"
proof (induction args arbitrary: a ds)
  case Nil
  then show ?case by simp
next
  case (Cons arg args)
  then show ?case
    by (fastforce simp add: Dice_new_def list_ex_iff badSide_iff split: sum.splits if_splits)
qed

lemma chooseDice_loop_mem:
  "chooseDice_loop opts ls = Some (d, rest) \<Longrightarrow> d \<in> set opts"
proof (induction ls)
  case Nil
  then show ?case by simp
next
  case (Cons l ls)
  show ?case
  proof (cases "parseInt l")
    case None
    with Cons show ?thesis by simp
  next
    case (Some choice)
    show ?thesis
    proof (cases "choice < 0 \<or> choice \<ge> int (length opts)")
      case True
      with Some Cons show ?thesis by auto
    next
      case False
      then have "nat choice < length opts" by linarith
      with Some False Cons.prems show ?thesis by auto
    qed
  qed
qed

lemma otherDice_found:
  assumes ids: "map ident ds = [0 ..< length ds]" and three: "3 \<le> length ds"
    and mem: "chosen \<in> set ds"
  shows "\<exists>j < length ds. List.find (\<lambda>d. ident d \<noteq> ident chosen) ds = Some (ds ! j)
           \<and> ident (ds ! j) \<noteq> ident chosen
           \<and> (\<forall>k < j. ds ! k = chosen)
           \<and> j = (if chosen = ds ! 0 then 1 else 0)"
proof -
  have nth_ident: "ident (ds ! i) = i" if "i < length ds" for i
  proof -
    from that have "ident (ds ! i) = map ident ds ! i" by simp
    also have "\<dots> = i" using that by (simp only: ids nth_upt add_0)
    finally show ?thesis .
  qed
  from mem obtain c where c: "c < length ds" and chosen: "chosen = ds ! c"
    by (auto simp add: in_set_conv_nth)
  from c have idc: "ident (ds ! c) = c" by (rule nth_ident)
  from three have l0: "0 < length ds" by linarith
  from three have l1: "1 < length ds" by linarith
  have i0: "ident (ds ! 0) = 0" using l0 by (rule nth_ident)
  have i1: "ident (ds ! 1) = 1" using l1 by (rule nth_ident)
  show ?thesis
  proof (cases "c = 0")
    case True
    have f: "List.find (\<lambda>d. ident d \<noteq> ident (ds ! 0)) ds = Some (ds ! 1)"
      unfolding find_Some_iff
    proof (intro exI [of _ 1] conjI allI impI)
      show "1 < length ds" by (rule l1)
      show "ident (ds ! 1) \<noteq> ident (ds ! 0)" using i0 i1 by simp
      show "ds ! 1 = ds ! 1" by (rule refl)
      show "\<not> ident (ds ! k) \<noteq> ident (ds ! 0)" if "k < 1" for k using that by simp
    qed
    show ?thesis
    proof (intro exI [of _ 1] conjI allI impI)
      show "1 < length ds" by (rule l1)
      show "List.find (\<lambda>d. ident d \<noteq> ident chosen) ds = Some (ds ! 1)"
        using f by (simp add: chosen True)
      show "ident (ds ! 1) \<noteq> ident chosen" using i0 i1 by (simp add: chosen True)
      show "ds ! k = chosen" if "k < 1" for k using that by (simp add: chosen True)
      show "1 = (if chosen = ds ! 0 then 1 else 0 :: nat)" by (simp add: chosen True)
    qed
  next
    case False
    have ne: "ident (ds ! 0) \<noteq> ident (ds ! c)" using False i0 idc by simp
    then have ne': "ds ! 0 \<noteq> ds ! c" by auto
    have f: "List.find (\<lambda>d. ident d \<noteq> ident (ds ! c)) ds = Some (ds ! 0)"
      unfolding find_Some_iff
    proof (intro exI [of _ 0] conjI allI impI)
      show "0 < length ds" by (rule l0)
      show "ident (ds ! 0) \<noteq> ident (ds ! c)" by (rule ne)
      show "ds ! 0 = ds ! 0" by (rule refl)
      show "\<not> ident (ds ! k) \<noteq> ident (ds ! c)" if "k < 0" for k using that by simp
    qed
    show ?thesis
    proof (intro exI [of _ 0] conjI allI impI)
      show "0 < length ds" by (rule l0)
      show "List.find (\<lambda>d. ident d \<noteq> ident chosen) ds = Some (ds ! 0)"
        using f by (simp add: chosen)
      show "ident (ds ! 0) \<noteq> ident chosen" using ne by (simp add: chosen)
      show "ds ! k = chosen" if "k < 0" for k using that by simp
      show "0 = (if chosen = ds ! 0 then 1 else 0 :: nat)" using ne' by (simp add: chosen)
    qed
  qed
qed

lemma DiceGame_new_Inr:
  assumes "DiceGame_new N args = Inr g"
  shows "3 \<le> length args \<and> newDice N 0 args = Inr (diceOptions g)"
proof (cases "length args < 3")
  case True
  with assms show ?thesis by (simp add: DiceGame_new_def)
next
  case False
  show ?thesis
  proof (cases "newDice N 0 args")
    case (Inl e)
    with False assms show ?thesis by (simp add: DiceGame_new_def)
  next
    case (Inr ds)
    with False assms have "g = \<lparr>diceOptions = ds, scores = \<lparr>user = 0, computer = 0\<rparr>\<rparr>"
      by (simp add: DiceGame_new_def)
    then have "diceOptions g = ds" by simp
    with Inr False show ?thesis by simp
  qed
qed

lemma newDice_length: "newDice N a args = Inr ds \<Longrightarrow> length ds = length args"
  using arg_cong [OF newDice_idents, of N a args ds length] by simp

lemma playRound_diceOptions:
  "playRound C g pd cd w = Done (g', w') \<Longrightarrow> diceOptions g' = diceOptions g"
  by (auto simp add: playRound_def split: prod.splits option.splits)

lemma playOne_diceOptions:
  "playOne C g w = Done (g', w') \<Longrightarrow> diceOptions g' = diceOptions g"
  by (auto simp add: playOne_def split: option.splits prod.splits if_splits
      dest: playRound_diceOptions)

lemma playRounds_diceOptions:
  "playRounds C n g w = Done (g', w') \<Longrightarrow> diceOptions g' = diceOptions g"
proof (induction n arbitrary: g w)
  case 0
  then show ?case by simp
next
  case (Suc n)
  from Suc.prems obtain g1 w1 where one: "playOne C g w = Done (g1, w1)"
    and rest: "playRounds C n g1 w1 = Done (g', w')"
    by (auto split: outcome.splits prod.splits)
  from Suc.IH [OF rest] playOne_diceOptions [OF one] show ?case by simp
qed

lemma playRounds_add:
  "playRounds C k g0 w0 = Done (g, w) \<Longrightarrow> playRounds C (k + m) g0 w0 = playRounds C m g w"
proof (induction k arbitrary: g0 w0)
  case 0
  then show ?case by simp
next
  case (Suc k)
  from Suc.prems obtain g1 w1 where one: "playOne C g0 w0 = Done (g1, w1)"
    and rest: "playRounds C k g1 w1 = Done (g, w)"
    by (auto split: outcome.splits prod.splits)
  from Suc.IH [OF rest] one show ?case by simp
qed

lemma playOne_dice:
  assumes "determineFirstMove C w = Some (firstPlayer, w1)"
    and "chooseDice g w1 = Some (chosen, w2)"
  shows "playOne C g w =
           (if firstPlayer = User then playRound C g (Some chosen) (otherDice g chosen) w2
            else playRound C g (otherDice g chosen) (Some chosen) w2)"
  using assms by (simp add: playOne_def)

text \<open>
  C10.  Take a game that the constructor returned and the state \<open>g\<close>, \<open>w\<close> it is in after
  any number \<open>n\<close> of rounds, and a next round in which the first move is determined and
  \<^verbatim>\<open>chooseDice\<close> returns the die \<open>chosen\<close>.  Then \<open>chosen\<close> is one of the options, and
  \<^verbatim>\<open>find\<close> gives the other party the option at the first position \<open>j\<close> whose object is not
  the chosen one, which is position 1 when the first option was chosen and position 0
  otherwise.  Its identity differs from the chosen die's, whatever the faces are, and these
  two dice are the ones the round passes to \<^verbatim>\<open>playRound\<close>: the chosen die on the side of
  the first player and the other die on the other side.
\<close>

theorem round_dice_distinct:
  assumes "DiceGame_new N args = Inr g0"
    and "playRounds C n g0 w0 = Done (g, w)"
    and "determineFirstMove C w = Some (firstPlayer, w1)"
    and "chooseDice g w1 = Some (chosen, w2)"
  shows "chosen \<in> set (diceOptions g)
       \<and> (\<exists>j < length (diceOptions g).
            otherDice g chosen = Some (diceOptions g ! j)
            \<and> ident (diceOptions g ! j) \<noteq> ident chosen
            \<and> (\<forall>k < j. diceOptions g ! k = chosen)
            \<and> j = (if chosen = diceOptions g ! 0 then 1 else 0)
            \<and> playOne C g w =
                (if firstPlayer = User
                 then playRound C g (Some chosen) (Some (diceOptions g ! j)) w2
                 else playRound C g (Some (diceOptions g ! j)) (Some chosen) w2))"
proof -
  from DiceGame_new_Inr [OF assms(1)]
  have len: "3 \<le> length args" and nd0: "newDice N 0 args = Inr (diceOptions g0)"
    by simp_all
  have same: "diceOptions g = diceOptions g0" using assms(2) by (rule playRounds_diceOptions)
  from nd0 have nd: "newDice N 0 args = Inr (diceOptions g)" by (simp only: same)
  have l: "length (diceOptions g) = length args" using nd by (rule newDice_length)
  from newDice_idents [OF nd] have ids: "map ident (diceOptions g) = [0 ..< length (diceOptions g)]"
    by (simp only: l add_0)
  from l len have three: "3 \<le> length (diceOptions g)" by simp
  from assms(4) obtain ls where "chooseDice_loop (diceOptions g) (stdin w1) = Some (chosen, ls)"
    by (auto simp add: chooseDice_def split: option.splits)
  then have mem: "chosen \<in> set (diceOptions g)" by (rule chooseDice_loop_mem)
  from otherDice_found [OF ids three mem]
  obtain j where j: "j < length (diceOptions g)"
    and f: "List.find (\<lambda>d. ident d \<noteq> ident chosen) (diceOptions g) = Some (diceOptions g ! j)"
    and ne: "ident (diceOptions g ! j) \<noteq> ident chosen"
    and first: "\<forall>k < j. diceOptions g ! k = chosen"
    and pos: "j = (if chosen = diceOptions g ! 0 then 1 else 0)"
    by blast
  from f have o: "otherDice g chosen = Some (diceOptions g ! j)" by (simp only: otherDice_def)
  have p: "playOne C g w =
                (if firstPlayer = User
                 then playRound C g (Some chosen) (Some (diceOptions g ! j)) w2
                 else playRound C g (Some (diceOptions g ! j)) (Some chosen) w2)"
    using playOne_dice [OF assms(3) assms(4)] by (simp only: o)
  from mem j o ne first pos p show ?thesis by blast
qed

theorem round_dice_distinct_witness:
  "DiceGame_new exampleNumber [''1,1,1,1,1,1'', ''1,1,1,1,1,1'', ''2,2,2,2,2,2'']
     = Inr \<lparr>diceOptions =
       [\<lparr>ident = 0, sides = [1, 1, 1, 1, 1, 1]\<rparr>,
        \<lparr>ident = 1, sides = [1, 1, 1, 1, 1, 1]\<rparr>,
        \<lparr>ident = 2, sides = [2, 2, 2, 2, 2, 2]\<rparr>],
      scores = \<lparr>user = 0, computer = 0\<rparr>\<rparr>
   \<and> playRounds exampleCrypto 1
     \<lparr>diceOptions =
       [\<lparr>ident = 0, sides = [1, 1, 1, 1, 1, 1]\<rparr>,
        \<lparr>ident = 1, sides = [1, 1, 1, 1, 1, 1]\<rparr>,
        \<lparr>ident = 2, sides = [2, 2, 2, 2, 2, 2]\<rparr>],
      scores = \<lparr>user = 0, computer = 0\<rparr>\<rparr>
     \<lparr>stdin = [''1'', ''2'', ''0'', ''0'', ''9'', ''0'', ''4''], entropy = (0::int)\<rparr>
     = Done (\<lparr>diceOptions =
       [\<lparr>ident = 0, sides = [1, 1, 1, 1, 1, 1]\<rparr>,
        \<lparr>ident = 1, sides = [1, 1, 1, 1, 1, 1]\<rparr>,
        \<lparr>ident = 2, sides = [2, 2, 2, 2, 2, 2]\<rparr>],
      scores = \<lparr>user = 1, computer = 0\<rparr>\<rparr>,
             \<lparr>stdin = [''0'', ''9'', ''0'', ''4''], entropy = (4::int)\<rparr>)
   \<and> determineFirstMove exampleCrypto \<lparr>stdin = [''0'', ''9'', ''0'', ''4''], entropy = (4::int)\<rparr>
     = Some (Computer, \<lparr>stdin = [''9'', ''0'', ''4''], entropy = (6::int)\<rparr>)
   \<and> chooseDice
     \<lparr>diceOptions =
       [\<lparr>ident = 0, sides = [1, 1, 1, 1, 1, 1]\<rparr>,
        \<lparr>ident = 1, sides = [1, 1, 1, 1, 1, 1]\<rparr>,
        \<lparr>ident = 2, sides = [2, 2, 2, 2, 2, 2]\<rparr>],
      scores = \<lparr>user = 1, computer = 0\<rparr>\<rparr>
     \<lparr>stdin = [''9'', ''0'', ''4''], entropy = (6::int)\<rparr>
     = Some (\<lparr>ident = 0, sides = [1, 1, 1, 1, 1, 1]\<rparr>, \<lparr>stdin = [''4''], entropy = (6::int)\<rparr>)
   \<and> otherDice
     \<lparr>diceOptions =
       [\<lparr>ident = 0, sides = [1, 1, 1, 1, 1, 1]\<rparr>,
        \<lparr>ident = 1, sides = [1, 1, 1, 1, 1, 1]\<rparr>,
        \<lparr>ident = 2, sides = [2, 2, 2, 2, 2, 2]\<rparr>],
      scores = \<lparr>user = 1, computer = 0\<rparr>\<rparr>
     \<lparr>ident = 0, sides = [1, 1, 1, 1, 1, 1]\<rparr>
     = Some \<lparr>ident = 1, sides = [1, 1, 1, 1, 1, 1]\<rparr>
   \<and> playOne exampleCrypto
     \<lparr>diceOptions =
       [\<lparr>ident = 0, sides = [1, 1, 1, 1, 1, 1]\<rparr>,
        \<lparr>ident = 1, sides = [1, 1, 1, 1, 1, 1]\<rparr>,
        \<lparr>ident = 2, sides = [2, 2, 2, 2, 2, 2]\<rparr>],
      scores = \<lparr>user = 1, computer = 0\<rparr>\<rparr>
     \<lparr>stdin = [''0'', ''9'', ''0'', ''4''], entropy = (4::int)\<rparr>
     = playRound exampleCrypto
        \<lparr>diceOptions =
       [\<lparr>ident = 0, sides = [1, 1, 1, 1, 1, 1]\<rparr>,
        \<lparr>ident = 1, sides = [1, 1, 1, 1, 1, 1]\<rparr>,
        \<lparr>ident = 2, sides = [2, 2, 2, 2, 2, 2]\<rparr>],
      scores = \<lparr>user = 1, computer = 0\<rparr>\<rparr>
        (Some \<lparr>ident = 1, sides = [1, 1, 1, 1, 1, 1]\<rparr>) (Some \<lparr>ident = 0, sides = [1, 1, 1, 1, 1, 1]\<rparr>)
        \<lparr>stdin = [''4''], entropy = (6::int)\<rparr>"
proof -
  have h1: "DiceGame_new exampleNumber [''1,1,1,1,1,1'', ''1,1,1,1,1,1'', ''2,2,2,2,2,2'']
     = Inr \<lparr>diceOptions =
       [\<lparr>ident = 0, sides = [1, 1, 1, 1, 1, 1]\<rparr>,
        \<lparr>ident = 1, sides = [1, 1, 1, 1, 1, 1]\<rparr>,
        \<lparr>ident = 2, sides = [2, 2, 2, 2, 2, 2]\<rparr>],
      scores = \<lparr>user = 0, computer = 0\<rparr>\<rparr>"
    by code_simp
  have h2: "playRounds exampleCrypto 1
     \<lparr>diceOptions =
       [\<lparr>ident = 0, sides = [1, 1, 1, 1, 1, 1]\<rparr>,
        \<lparr>ident = 1, sides = [1, 1, 1, 1, 1, 1]\<rparr>,
        \<lparr>ident = 2, sides = [2, 2, 2, 2, 2, 2]\<rparr>],
      scores = \<lparr>user = 0, computer = 0\<rparr>\<rparr>
     \<lparr>stdin = [''1'', ''2'', ''0'', ''0'', ''9'', ''0'', ''4''], entropy = (0::int)\<rparr>
     = Done (\<lparr>diceOptions =
       [\<lparr>ident = 0, sides = [1, 1, 1, 1, 1, 1]\<rparr>,
        \<lparr>ident = 1, sides = [1, 1, 1, 1, 1, 1]\<rparr>,
        \<lparr>ident = 2, sides = [2, 2, 2, 2, 2, 2]\<rparr>],
      scores = \<lparr>user = 1, computer = 0\<rparr>\<rparr>,
             \<lparr>stdin = [''0'', ''9'', ''0'', ''4''], entropy = (4::int)\<rparr>)"
    by code_simp
  have h3: "determineFirstMove exampleCrypto \<lparr>stdin = [''0'', ''9'', ''0'', ''4''], entropy = (4::int)\<rparr>
     = Some (Computer, \<lparr>stdin = [''9'', ''0'', ''4''], entropy = (6::int)\<rparr>)"
    by code_simp
  have h4: "chooseDice
     \<lparr>diceOptions =
       [\<lparr>ident = 0, sides = [1, 1, 1, 1, 1, 1]\<rparr>,
        \<lparr>ident = 1, sides = [1, 1, 1, 1, 1, 1]\<rparr>,
        \<lparr>ident = 2, sides = [2, 2, 2, 2, 2, 2]\<rparr>],
      scores = \<lparr>user = 1, computer = 0\<rparr>\<rparr>
     \<lparr>stdin = [''9'', ''0'', ''4''], entropy = (6::int)\<rparr>
     = Some (\<lparr>ident = 0, sides = [1, 1, 1, 1, 1, 1]\<rparr>, \<lparr>stdin = [''4''], entropy = (6::int)\<rparr>)"
    by code_simp
  from round_dice_distinct [OF h1 h2 h3 h4] h1 h2 h3 h4 show ?thesis by simp
qed

section \<open>Prompts\<close>

text \<open>
  The loops of \<^verbatim>\<open>chooseDice\<close> and \<^verbatim>\<open>playRound\<close> read the next line when a line is not a
  number or is out of range; together with \<open>userNumber_loop_range\<close> and
  \<open>chooseDice_loop_mem\<close>, what they return is in range.
\<close>

lemma userNumber_loop_reprompts:
  "parseInt l = None \<or> (\<exists>n. parseInt l = Some n \<and> (n < 0 \<or> 5 < n))
   \<Longrightarrow> userNumber_loop (l # ls) = userNumber_loop ls"
  by auto

lemma chooseDice_loop_reprompts:
  "parseInt l = None \<or> (\<exists>n. parseInt l = Some n \<and> (n < 0 \<or> int (length opts) \<le> n))
   \<Longrightarrow> chooseDice_loop opts (l # ls) = chooseDice_loop opts ls"
  by auto

text \<open>
  C9 at the guess \<^verbatim>\<open>7\<close>, followed by the line \<^verbatim>\<open>0\<close>.  \<^verbatim>\<open>determineFirstMove\<close> has no loop:
  with every crypto module it returns after the first line, leaving \<^verbatim>\<open>0\<close> unread, and the
  guess it compares with the house's bit is \<open>7\<close>; with the example module the computer
  moves first.
\<close>

theorem firstMove_guess_unchecked:
  "parseInt ''7'' = Some 7
   \<and> (\<exists>p e'. determineFirstMove C \<lparr>stdin = [''7'', ''0''], entropy = e\<rparr>
                = Some (p, \<lparr>stdin = [''0''], entropy = e'\<rparr>))
   \<and> determineFirstMove exampleCrypto \<lparr>stdin = [''7'', ''0''], entropy = 0\<rparr>
       = Some (Computer, \<lparr>stdin = [''0''], entropy = 2\<rparr>)"
proof (intro conjI)
  show "parseInt ''7'' = Some 7" by code_simp
  show "\<exists>p e'. determineFirstMove C \<lparr>stdin = [''7'', ''0''], entropy = e\<rparr>
                = Some (p, \<lparr>stdin = [''0''], entropy = e'\<rparr>)"
    by (simp add: determineFirstMove_def getUserInput_def split: prod.splits)
  show "determineFirstMove exampleCrypto \<lparr>stdin = [''7'', ''0''], entropy = 0\<rparr>
       = Some (Computer, \<lparr>stdin = [''0''], entropy = 2\<rparr>)"
    by code_simp
qed

end
